theory Spec2Isabelle
  imports Complex_Main "HOL-Library.Multiset"
begin

section \<open>JavaScript numbers\<close>

text \<open>
  The hooks of \<^verbatim>\<open>src/lib/hooks/useHealthRecord.ts\<close> compute with JavaScript numbers, which
  are IEEE 754 binary64 values. A finite value is represented by the rational it denotes; the
  two infinities and NaN are separate values. The sign of zero is not represented: the only
  division by a zero in this module has a product \<open>x * x\<close> as its divisor, which is never the
  negative zero, and \<open>toFixed\<close> prints both zeros alike.
\<close>

datatype number = NaN | PosInf | NegInf | Fin rat

text \<open>Number of binary digits of a positive integer.\<close>

function bits :: "int \<Rightarrow> int" where
  "bits n = (if n \<le> 0 then 0 else 1 + bits (n div 2))"
  by auto
termination
  by (relation "measure nat") auto

declare bits.simps [simp del]

definition pow2 :: "int \<Rightarrow> rat" where
  "pow2 e = (if 0 \<le> e then 2 ^ nat e else 1 / 2 ^ nat (- e))"

text \<open>\<open>ilog2 x\<close> is the binary exponent of a positive rational: \<open>2^(ilog2 x) \<le> x < 2^(ilog2 x + 1)\<close>.\<close>

definition ilog2 :: "rat \<Rightarrow> int" where
  "ilog2 x = (let (p, q) = quotient_of x;
                  k = bits p - bits q
              in if pow2 k \<le> x then k else k - 1)"

definition roundHalfEven :: "rat \<Rightarrow> int" where
  "roundHalfEven x =
     (let n = \<lfloor>x\<rfloor>; r = x - of_int n
      in if r < 1 / 2 then n else if 1 / 2 < r then n + 1 else if even n then n else n + 1)"

text \<open>
  Rounding of a positive rational to binary64, round to nearest, ties to even: 53 significant
  bits, and no unit in the last place below \<open>2^-1074\<close> (the subnormal range).
\<close>

definition roundPos :: "rat \<Rightarrow> rat" where
  "roundPos x =
     (let e = max (ilog2 x - 52) (- 1074)
      in of_int (roundHalfEven (x / pow2 e)) * pow2 e)"

definition toDouble :: "rat \<Rightarrow> number" where
  "toDouble x =
     (if x = 0 then Fin 0
      else let r = roundPos \<bar>x\<bar> in
        if pow2 1024 \<le> r then (if 0 < x then PosInf else NegInf)
        else Fin (if 0 < x then r else - r))"

fun isNeg :: "number \<Rightarrow> bool" where
  "isNeg NegInf = True"
| "isNeg (Fin a) = (a < 0)"
| "isNeg _ = False"

definition signedInf :: "bool \<Rightarrow> number" where
  "signedInf neg = (if neg then NegInf else PosInf)"

text \<open>The operator \<open>*\<close> on numbers.\<close>

fun fmul :: "number \<Rightarrow> number \<Rightarrow> number" where
  "fmul NaN y = NaN"
| "fmul x NaN = NaN"
| "fmul (Fin a) (Fin b) = toDouble (a * b)"
| "fmul (Fin a) y = (if a = 0 then NaN else signedInf ((a < 0) \<noteq> isNeg y))"
| "fmul x (Fin b) = (if b = 0 then NaN else signedInf (isNeg x \<noteq> (b < 0)))"
| "fmul x y = signedInf (isNeg x \<noteq> isNeg y)"

text \<open>The operator \<open>/\<close> on numbers; a zero divisor is the positive zero.\<close>

fun fdiv :: "number \<Rightarrow> number \<Rightarrow> number" where
  "fdiv NaN y = NaN"
| "fdiv x NaN = NaN"
| "fdiv (Fin a) (Fin b) =
     (if b = 0 then (if a = 0 then NaN else signedInf (a < 0)) else toDouble (a / b))"
| "fdiv (Fin a) y = Fin 0"
| "fdiv x (Fin b) = signedInf (isNeg x \<noteq> (b < 0))"
| "fdiv x y = NaN"

text \<open>A number is falsy when it is a zero or NaN (the operand test of \<open>||\<close>).\<close>

definition truthy :: "number \<Rightarrow> bool" where
  "truthy x = (x \<noteq> NaN \<and> x \<noteq> Fin 0)"

text \<open>
  The text that \<open>Number.prototype.toFixed\<close> returns, by what it denotes: the non-finite names,
  a sign with the integer \<open>n\<close> printed with a decimal point before its last \<open>f\<close> digits, or, for
  a magnitude of \<open>10^21\<close> and more, the output of \<open>Number::toString\<close> for the value.
\<close>

datatype numberText =
    TextNaN
  | TextInfinity
  | TextNegInfinity
  | TextFixed bool int nat
  | TextToString rat

text \<open>
  \<open>toFixed f x\<close> follows the algorithm of ECMAScript: a negative \<open>x\<close> gives the sign and is
  negated; then \<open>n\<close> is the integer for which \<open>n / 10^f - x\<close> is as close to zero as possible,
  the larger one if there are two.
\<close>

definition toFixed :: "nat \<Rightarrow> number \<Rightarrow> numberText" where
  "toFixed f x =
     (case x of
        NaN \<Rightarrow> TextNaN
      | PosInf \<Rightarrow> TextInfinity
      | NegInf \<Rightarrow> TextNegInfinity
      | Fin q \<Rightarrow>
          let a = \<bar>q\<bar> in
          if 10 ^ 21 \<le> a then TextToString q
          else
            let lo = \<lfloor>a * 10 ^ f\<rfloor>;
                n = (if a * 10 ^ f - of_int lo < of_int (lo + 1) - a * 10 ^ f then lo else lo + 1)
            in TextFixed (q < 0) n f)"

text \<open>
  \<open>parseFloat\<close> on such a text: the number nearest to the decimal; \<open>Number::toString\<close> prints
  a decimal that reads back as the same number.
\<close>

fun parseFloat :: "numberText \<Rightarrow> number" where
  "parseFloat TextNaN = NaN"
| "parseFloat TextInfinity = PosInf"
| "parseFloat TextNegInfinity = NegInf"
| "parseFloat (TextFixed neg n f) = toDouble ((if neg then - 1 else 1) * of_int n / 10 ^ f)"
| "parseFloat (TextToString q) = Fin q"

section \<open>Vitals: the derived field\<close>

text \<open>
  \<^verbatim>\<open>
  const calculateBMI = (height: number, weight: number): number => {
    const heightInMeters = height / 100;
    return parseFloat((weight / (heightInMeters * heightInMeters)).toFixed(1));
  };
  \<close>
\<close>

definition calculateBMI :: "number \<Rightarrow> number \<Rightarrow> number" where
  "calculateBMI height weight =
     (let heightInMeters = fdiv height (Fin 100)
      in parseFloat (toFixed 1 (fdiv weight (fmul heightInMeters heightInMeters))))"

text \<open>
  The rounding the specification names: to \<open>f\<close> decimals, half away from zero.
\<close>

definition roundHalfAwayFromZero :: "nat \<Rightarrow> rat \<Rightarrow> rat" where
  "roundHalfAwayFromZero f x = sgn x * of_int \<lfloor>\<bar>x\<bar> * 10 ^ f + 1 / 2\<rfloor> / 10 ^ f"


section \<open>What every hook shares\<close>

text \<open>
  The active user is \<open>user\<close> of \<open>useAuth()\<close>, \<open>None\<close> for \<open>null\<close>; only \<open>user.id\<close> is read.
  An async hook function returns \<open>undefined\<close> or a boolean. A call of \<open>toast\<close> is recorded
  by its argument, a call of \<open>console.error\<close> by its first argument, and every call of the
  Supabase client by the query it builds.
\<close>

type_synonym userId = string

datatype returned = Undefined | Boolean bool

datatype variant = DefaultVariant | Destructive

record toast =
  title :: string
  description :: string
  variant :: variant

record postgrestError =
  error_code :: string

text \<open>
  What an awaited query resolves to, \<open>{ data, error }\<close>, or that the promise rejects.
\<close>

datatype 'a reply = Rejected | Reply "'a option" "postgrestError option"

text \<open>
  The existence check shared by the four single-row hooks:
  \<^verbatim>\<open>
  const { data: existingData, error: checkError } = await supabase
    .from(table).select('id').eq('user_id', user.id).single();
  if (checkError && checkError.code !== 'PGRST116') { throw checkError; }
  \<close>
  \<open>checkThrows\<close> says that control leaves for the \<open>catch\<close> block; \<open>existingId\<close> is
  \<open>existingData?.id\<close> when it is truthy.
\<close>

fun checkThrows :: "string reply \<Rightarrow> bool" where
  "checkThrows Rejected = True"
| "checkThrows (Reply d None) = False"
| "checkThrows (Reply d (Some e)) = (error_code e \<noteq> ''PGRST116'')"

fun existingId :: "string reply \<Rightarrow> string option" where
  "existingId (Reply (Some i) e) = (if i = [] then None else Some i)"
| "existingId _ = None"

text \<open>\<open>if (result.error) { throw result.error; }\<close> after the awaited write.\<close>

fun writeThrows :: "'a reply \<Rightarrow> bool" where
  "writeThrows Rejected = True"
| "writeThrows (Reply d None) = False"
| "writeThrows (Reply d (Some e)) = True"

section \<open>The data model\<close>

record personalInfo =
  pi_id :: "string option"
  pi_user_id :: "string option"
  full_name :: string
  age :: number
  gender :: string
  address :: string
  marital_status :: string
  children :: number

text \<open>
  \<open>Partial<PersonalInfo>\<close>: a field is \<open>None\<close> when the update does not have the property.
  A property that is there with the value \<open>undefined\<close> is not represented.
\<close>

record personalInfoPartial =
  upd_pi_id :: "string option"
  upd_pi_user_id :: "string option"
  upd_full_name :: "string option"
  upd_age :: "number option"
  upd_gender :: "string option"
  upd_address :: "string option"
  upd_marital_status :: "string option"
  upd_children :: "number option"

record vitalsInfo =
  v_id :: "string option"
  v_user_id :: "string option"
  height :: number
  weight :: number
  bmi :: number
  blood_group :: string

record vitalsInfoPartial =
  upd_v_id :: "string option"
  upd_v_user_id :: "string option"
  upd_height :: "number option"
  upd_weight :: "number option"
  upd_bmi :: "number option"
  upd_blood_group :: "string option"

record lifestyleInfo =
  l_id :: "string option"
  l_user_id :: "string option"
  activity_level :: string
  smoking_status :: string
  alcohol_consumption :: string

record lifestyleInfoPartial =
  upd_l_id :: "string option"
  upd_l_user_id :: "string option"
  upd_activity_level :: "string option"
  upd_smoking_status :: "string option"
  upd_alcohol_consumption :: "string option"

record metricReading =
  reading_id :: string
  reading_date :: string
  reading_value :: number

text \<open>
  An object on the heap, by the properties this module reads or writes; \<open>None\<close> is
  \<open>undefined\<close>. A \<open>MetricData\<close> has a name, a unit and readings; the code itself allows for
  absent readings (\<open>readings || []\<close>).
\<close>

record metricData =
  md_name :: "string option"
  md_unit :: "string option"
  normal_range :: "(number \<times> number) option"
  readings :: "metricReading list option"

record labTestResult =
  result_id :: string
  testId :: string
  testName :: string
  result_value :: string
  result_unit :: string
  referenceRange :: "string option"
  isAbnormal :: bool
  loincCode :: "string option"

text \<open>A value that \<open>JSON.parse\<close> can return.\<close>

datatype json =
    JNull
  | JBoolean bool
  | JNumber number
  | JString string
  | JArray "json list"
  | JObject "(string \<times> json) list"

text \<open>
  The hooks cast what \<open>JSON.parse\<close> returns to the type they expect
  (\<open>as Record<string, MetricData>\<close>, \<open>as LabTestResult[]\<close>) and the cast checks nothing. So
  a call of \<open>JSON.parse\<close> is seen from the type of the cast: it throws a \<open>SyntaxError\<close>,
  or it returns a value of that type, or it returns some other value, which the hook
  takes all the same.
\<close>

datatype 'a parsed = SyntaxError | NotOfType json | OfType 'a

text \<open>
  The test results of a cached report: a list of results, or a value that came out of
  \<open>JSON.parse\<close> and is not one.
\<close>

datatype testResultsValue = Results "labTestResult list" | UncheckedResults json

text \<open>
  \<open>status\<close> is declared \<open>"normal" | "abnormal" | "pending"\<close>; at run time it is a string, and
  \<open>addLabReport\<close> stores the one the store returns without a check.
\<close>

record labReport =
  report_id :: string
  report_name :: string
  report_date :: string
  status :: string
  fileUrl :: "string option"
  testResults :: "testResultsValue option"

text \<open>\<open>Omit<LabReport, 'id'>\<close>, the argument of \<open>addLabReport\<close>.\<close>

record labReportInput =
  in_name :: string
  in_date :: string
  in_status :: string
  in_fileUrl :: "string option"
  in_testResults :: "labTestResult list option"

text \<open>
  A value of the column \<open>testresults\<close> as the store hands it back: \<open>null\<close>, text, or an
  array the store has parsed itself.
\<close>

datatype resultsColumn = ResultsNull | ResultsText string | ResultsArray "labTestResult list"

record labRow =
  row_id :: string
  row_name :: string
  row_date :: string
  row_status :: string
  row_fileurl :: "string option"
  row_testresults :: resultsColumn

text \<open>The object \<open>newReport\<close> that \<open>addLabReport\<close> inserts.\<close>

record labInsert =
  ins_name :: string
  ins_date :: string
  ins_status :: string
  ins_fileurl :: "string option"
  ins_testresults :: "string option"
  ins_user_id :: string

text \<open>
  The column \<open>metrics\<close> as the store hands it back: \<open>null\<close>, text, or an object the store
  has parsed itself, given by its entries.
\<close>

datatype metricsColumn =
    MetricsNull
  | MetricsText string
  | MetricsObject "(string \<times> metricData) list"

section \<open>Requests to the store and outcomes of a call\<close>

datatype payload =
    PersonalRow personalInfo
  | VitalsRow vitalsInfo
  | LifestyleRow lifestyleInfo
  | MetricsRow "userId option" string
  | LabRow labInsert

text \<open>
  \<^item> \<open>SelectId t u\<close>: \<open>from(t).select('id').eq('user_id', u).single()\<close>
  \<^item> \<open>SelectSingle t u\<close>: \<open>from(t).select('*').eq('user_id', u).single()\<close>
  \<^item> \<open>SelectRows t u\<close>: \<open>from(t).select('*').eq('user_id', u)\<close>
  \<^item> \<open>Update t i p\<close>: \<open>from(t).update(p).eq('id', i)\<close>
  \<^item> \<open>Insert t p\<close>: \<open>from(t).insert(p)\<close>
  \<^item> \<open>InsertSelect t p\<close>: \<open>from(t).insert(p).select()\<close>
  \<^item> \<open>Delete t i u\<close>: \<open>from(t).delete().eq('id', i).eq('user_id', u)\<close>
\<close>

datatype request =
    SelectId string userId
  | SelectSingle string userId
  | SelectRows string userId
  | Update string string payload
  | Insert string payload
  | InsertSelect string payload
  | Delete string string userId

text \<open>
  What one call of a hook function leaves behind: the value it returns, the hook's state
  afterwards, and the toasts, requests and console messages in the order they were made.
\<close>

record 's outcome =
  result :: returned
  cache :: 's
  toasts :: "toast list"
  requests :: "request list"
  console :: "string list"

definition authenticationRequired :: "string \<Rightarrow> toast" where
  "authenticationRequired d =
     \<lparr>title = ''Authentication required'', description = d, variant = Destructive\<rparr>"

definition updateFailed :: "string \<Rightarrow> toast" where
  "updateFailed d = \<lparr>title = ''Update failed'', description = d, variant = Destructive\<rparr>"

section \<open>usePersonalInfo\<close>

text \<open>\<open>{ ...personalInfo, ...updatedInfo }\<close>: the fields the update has replace the cached ones.\<close>

definition spreadPersonal :: "personalInfo \<Rightarrow> personalInfoPartial \<Rightarrow> personalInfo" where
  "spreadPersonal b u =
     \<lparr>pi_id = (case upd_pi_id u of Some v \<Rightarrow> Some v | None \<Rightarrow> pi_id b),
      pi_user_id = (case upd_pi_user_id u of Some v \<Rightarrow> Some v | None \<Rightarrow> pi_user_id b),
      full_name = (case upd_full_name u of Some v \<Rightarrow> v | None \<Rightarrow> full_name b),
      age = (case upd_age u of Some v \<Rightarrow> v | None \<Rightarrow> age b),
      gender = (case upd_gender u of Some v \<Rightarrow> v | None \<Rightarrow> gender b),
      address = (case upd_address u of Some v \<Rightarrow> v | None \<Rightarrow> address b),
      marital_status = (case upd_marital_status u of Some v \<Rightarrow> v | None \<Rightarrow> marital_status b),
      children = (case upd_children u of Some v \<Rightarrow> v | None \<Rightarrow> children b)\<rparr>"

text \<open>
  \<open>updatePersonalInfo\<close> (lines 128 to 190). The two replies are those of the existence
  check and of the update or insert that follows it.
\<close>

definition updatePersonalInfo ::
  "userId option \<Rightarrow> personalInfo \<Rightarrow> personalInfoPartial \<Rightarrow> string reply \<Rightarrow> unit reply
     \<Rightarrow> personalInfo outcome" where
  "updatePersonalInfo user personalInfo updatedInfo checkReply writeReply =
     (case user of
        None \<Rightarrow>
          \<lparr>result = Undefined, cache = personalInfo,
           toasts = [authenticationRequired ''Please log in to save personal information''],
           requests = [], console = []\<rparr>
      | Some uid \<Rightarrow>
          let newInfo = (spreadPersonal personalInfo updatedInfo)\<lparr>pi_user_id := Some uid\<rparr>;
              check = SelectId ''health_personal_info'' uid;
              write = (case existingId checkReply of
                         Some i \<Rightarrow> Update ''health_personal_info'' i (PersonalRow newInfo)
                       | None \<Rightarrow> Insert ''health_personal_info'' (PersonalRow newInfo))
          in if checkThrows checkReply then
               \<lparr>result = Boolean False, cache = personalInfo,
                toasts = [updateFailed ''Could not save personal information''],
                requests = [check], console = [''Error saving personal info:'']\<rparr>
             else if writeThrows writeReply then
               \<lparr>result = Boolean False, cache = personalInfo,
                toasts = [updateFailed ''Could not save personal information''],
                requests = [check, write], console = [''Error saving personal info:'']\<rparr>
             else
               \<lparr>result = Boolean True, cache = newInfo,
                toasts = [\<lparr>title = ''Personal information updated'',
                           description = ''Your personal details have been saved'',
                           variant = DefaultVariant\<rparr>],
                requests = [check, write], console = []\<rparr>)"

section \<open>useVitalsInfo\<close>

definition spreadVitals :: "vitalsInfo \<Rightarrow> vitalsInfoPartial \<Rightarrow> vitalsInfo" where
  "spreadVitals b u =
     \<lparr>v_id = (case upd_v_id u of Some v \<Rightarrow> Some v | None \<Rightarrow> v_id b),
      v_user_id = (case upd_v_user_id u of Some v \<Rightarrow> Some v | None \<Rightarrow> v_user_id b),
      height = (case upd_height u of Some v \<Rightarrow> v | None \<Rightarrow> height b),
      weight = (case upd_weight u of Some v \<Rightarrow> v | None \<Rightarrow> weight b),
      bmi = (case upd_bmi u of Some v \<Rightarrow> v | None \<Rightarrow> bmi b),
      blood_group = (case upd_blood_group u of Some v \<Rightarrow> v | None \<Rightarrow> blood_group b)\<rparr>"

text \<open>\<open>updatedInfo.height || vitals.height\<close>: the first operand if it is there and truthy.\<close>

definition orElse :: "number option \<Rightarrow> number \<Rightarrow> number" where
  "orElse x d = (case x of Some v \<Rightarrow> if truthy v then v else d | None \<Rightarrow> d)"

text \<open>The initial state of the hook.\<close>

definition initialVitals :: vitalsInfo where
  "initialVitals =
     \<lparr>v_id = None, v_user_id = None, height = Fin 170, weight = Fin 68, bmi = Fin (47 / 2),
      blood_group = ''A+''\<rparr>"

text \<open>\<open>updateVitalsInfo\<close> (lines 241 to 312).\<close>

definition updateVitalsInfo ::
  "userId option \<Rightarrow> vitalsInfo \<Rightarrow> vitalsInfoPartial \<Rightarrow> string reply \<Rightarrow> unit reply
     \<Rightarrow> vitalsInfo outcome" where
  "updateVitalsInfo user vitals updatedInfo checkReply writeReply =
     (case user of
        None \<Rightarrow>
          \<lparr>result = Undefined, cache = vitals,
           toasts = [authenticationRequired ''Please log in to save vitals information''],
           requests = [], console = []\<rparr>
      | Some uid \<Rightarrow>
          let newHeight = orElse (upd_height updatedInfo) (height vitals);
              newWeight = orElse (upd_weight updatedInfo) (weight vitals);
              newBMI = calculateBMI newHeight newWeight;
              newVitals = (spreadVitals vitals updatedInfo)\<lparr>bmi := newBMI, v_user_id := Some uid\<rparr>;
              check = SelectId ''health_vitals'' uid;
              write = (case existingId checkReply of
                         Some i \<Rightarrow> Update ''health_vitals'' i (VitalsRow newVitals)
                       | None \<Rightarrow> Insert ''health_vitals'' (VitalsRow newVitals))
          in if checkThrows checkReply then
               \<lparr>result = Boolean False, cache = vitals,
                toasts = [updateFailed ''Could not save vitals information''],
                requests = [check], console = [''Error saving vitals info:'']\<rparr>
             else if writeThrows writeReply then
               \<lparr>result = Boolean False, cache = vitals,
                toasts = [updateFailed ''Could not save vitals information''],
                requests = [check, write], console = [''Error saving vitals info:'']\<rparr>
             else
               \<lparr>result = Boolean True, cache = newVitals,
                toasts = [\<lparr>title = ''Vitals information updated'',
                           description = ''Your vitals have been updated successfully'',
                           variant = DefaultVariant\<rparr>],
                requests = [check, write], console = []\<rparr>)"

section \<open>useLifestyleInfo\<close>

definition spreadLifestyle :: "lifestyleInfo \<Rightarrow> lifestyleInfoPartial \<Rightarrow> lifestyleInfo" where
  "spreadLifestyle b u =
     \<lparr>l_id = (case upd_l_id u of Some v \<Rightarrow> Some v | None \<Rightarrow> l_id b),
      l_user_id = (case upd_l_user_id u of Some v \<Rightarrow> Some v | None \<Rightarrow> l_user_id b),
      activity_level = (case upd_activity_level u of Some v \<Rightarrow> v | None \<Rightarrow> activity_level b),
      smoking_status = (case upd_smoking_status u of Some v \<Rightarrow> v | None \<Rightarrow> smoking_status b),
      alcohol_consumption =
        (case upd_alcohol_consumption u of Some v \<Rightarrow> v | None \<Rightarrow> alcohol_consumption b)\<rparr>"

text \<open>\<open>updateLifestyleInfo\<close> (lines 357 to 419).\<close>

definition updateLifestyleInfo ::
  "userId option \<Rightarrow> lifestyleInfo \<Rightarrow> lifestyleInfoPartial \<Rightarrow> string reply \<Rightarrow> unit reply
     \<Rightarrow> lifestyleInfo outcome" where
  "updateLifestyleInfo user lifestyle updatedInfo checkReply writeReply =
     (case user of
        None \<Rightarrow>
          \<lparr>result = Undefined, cache = lifestyle,
           toasts = [authenticationRequired ''Please log in to save lifestyle information''],
           requests = [], console = []\<rparr>
      | Some uid \<Rightarrow>
          let newLifestyle = (spreadLifestyle lifestyle updatedInfo)\<lparr>l_user_id := Some uid\<rparr>;
              check = SelectId ''health_lifestyle'' uid;
              write = (case existingId checkReply of
                         Some i \<Rightarrow> Update ''health_lifestyle'' i (LifestyleRow newLifestyle)
                       | None \<Rightarrow> Insert ''health_lifestyle'' (LifestyleRow newLifestyle))
          in if checkThrows checkReply then
               \<lparr>result = Boolean False, cache = lifestyle,
                toasts = [updateFailed ''Could not save lifestyle information''],
                requests = [check], console = [''Error saving lifestyle info:'']\<rparr>
             else if writeThrows writeReply then
               \<lparr>result = Boolean False, cache = lifestyle,
                toasts = [updateFailed ''Could not save lifestyle information''],
                requests = [check, write], console = [''Error saving lifestyle info:'']\<rparr>
             else
               \<lparr>result = Boolean True, cache = newLifestyle,
                toasts = [\<lparr>title = ''Lifestyle information updated'',
                           description = ''Your lifestyle information has been saved'',
                           variant = DefaultVariant\<rparr>],
                requests = [check, write], console = []\<rparr>)"

section \<open>The runtime under the metrics and lab report hooks\<close>

text \<open>
  The state \<open>metrics\<close> of \<open>useHealthMetrics\<close> is an object whose property values are
  objects again, and \<open>addMetricReading\<close> assigns to a property of such an inner object. So
  objects live on a heap, and a \<open>Record<string, MetricData>\<close> is the map from its own keys to
  addresses.
\<close>

type_synonym addr = nat

text \<open>
  What the hooks take from the JavaScript runtime:
  \<^item> \<open>inherited\<close>: the properties a plain object inherits from \<open>Object.prototype\<close>;
  \<^item> \<open>dateFallback\<close>: how \<open>new Date(s).getTime()\<close> reads a string that is not a calendar
    date in the format \<open>YYYY-MM-DD\<close> (\<open>None\<close> is NaN, the time of an invalid date);
  \<^item> \<open>JSON.stringify\<close> at the two types it is called at, and \<open>JSON.parse\<close> seen from
    the two types its result is cast to.
\<close>

record runtime =
  inherited :: "string \<Rightarrow> addr option"
  dateFallback :: "string \<Rightarrow> int option"
  stringifyMetrics :: "(string \<Rightarrow> metricData option) \<Rightarrow> string"
  parseMetrics :: "string \<Rightarrow> (string \<times> metricData) list parsed"
  stringifyResults :: "labTestResult list \<Rightarrow> string"
  parseResults :: "string \<Rightarrow> labTestResult list parsed"

record metricsState =
  heap :: "addr \<Rightarrow> metricData"
  metrics :: "string \<Rightarrow> addr option"
  nextAddr :: addr

text \<open>
  The document a reader of the state \<open>metrics\<close> sees: for each own key, the object found
  there.
\<close>

definition document :: "metricsState \<Rightarrow> string \<Rightarrow> metricData option" where
  "document st k = map_option (heap st) (metrics st k)"

text \<open>
  The property read \<open>o[k]\<close> on a plain object: an own property, else what the prototype
  chain has.
\<close>

definition getProperty :: "runtime \<Rightarrow> (string \<Rightarrow> addr option) \<Rightarrow> string \<Rightarrow> addr option" where
  "getProperty rt own k = (case own k of Some a \<Rightarrow> Some a | None \<Rightarrow> inherited rt k)"

subsection \<open>Printing an integer\<close>

definition digitChar :: "int \<Rightarrow> char" where
  "digitChar d =
     (if d = 0 then CHR ''0'' else if d = 1 then CHR ''1'' else if d = 2 then CHR ''2''
      else if d = 3 then CHR ''3'' else if d = 4 then CHR ''4'' else if d = 5 then CHR ''5''
      else if d = 6 then CHR ''6'' else if d = 7 then CHR ''7'' else if d = 8 then CHR ''8''
      else CHR ''9'')"

function showDigits :: "int \<Rightarrow> string" where
  "showDigits n = (if n < 10 then [digitChar n] else showDigits (n div 10) @ [digitChar (n mod 10)])"
  by auto
termination
  by (relation "measure nat") auto

declare showDigits.simps [simp del]

text \<open>The text of an integer number in a template literal.\<close>

definition showInt :: "int \<Rightarrow> string" where
  "showInt n = (if n < 0 then CHR ''-'' # showDigits (- n) else showDigits n)"

subsection \<open>Dates\<close>

text \<open>The place of a character in a string, counted from 0.\<close>

fun position :: "char \<Rightarrow> string \<Rightarrow> int option" where
  "position c [] = None"
| "position c (d # ds) = (if c = d then Some 0 else map_option (\<lambda>i. i + 1) (position c ds))"

definition digitValue :: "char \<Rightarrow> int option" where
  "digitValue c = position c ''0123456789''"

fun digitsValue :: "string \<Rightarrow> int option" where
  "digitsValue [] = Some 0"
| "digitsValue (c # cs) =
     (case (digitValue c, digitsValue cs) of
        (Some d, Some r) \<Rightarrow> Some (d * 10 ^ length cs + r)
      | _ \<Rightarrow> None)"

definition isLeapYear :: "int \<Rightarrow> bool" where
  "isLeapYear y = (y mod 4 = 0 \<and> (y mod 100 \<noteq> 0 \<or> y mod 400 = 0))"

definition daysInMonth :: "int \<Rightarrow> int \<Rightarrow> int" where
  "daysInMonth y m =
     (if m = 2 then (if isLeapYear y then 29 else 28)
      else if m = 4 \<or> m = 6 \<or> m = 9 \<or> m = 11 then 30 else 31)"

text \<open>Leap years before the year \<open>y\<close>, counted from a fixed origin.\<close>

definition leapYearsBefore :: "int \<Rightarrow> int" where
  "leapYearsBefore y = (y - 1) div 4 - (y - 1) div 100 + (y - 1) div 400"

text \<open>Days from 1970-01-01 to the given day of the proleptic Gregorian calendar.\<close>

definition daysFromEpoch :: "int \<Rightarrow> int \<Rightarrow> int \<Rightarrow> int" where
  "daysFromEpoch y m d =
     365 * (y - 1970) + (leapYearsBefore y - leapYearsBefore 1970)
       + sum_list (map (daysInMonth y) [1..m - 1]) + (d - 1)"

text \<open>
  A date-only string \<open>YYYY-MM-DD\<close> that names a day of the calendar is that day's midnight
  in UTC, in milliseconds since the epoch.
\<close>

fun parseIsoDate :: "string \<Rightarrow> int option" where
  "parseIsoDate [y1, y2, y3, y4, s1, m1, m2, s2, d1, d2] =
     (if s1 = CHR ''-'' \<and> s2 = CHR ''-'' then
        (case (digitsValue [y1, y2, y3, y4], digitsValue [m1, m2], digitsValue [d1, d2]) of
           (Some y, Some m, Some d) \<Rightarrow>
             if 1 \<le> m \<and> m \<le> 12 \<and> 1 \<le> d \<and> d \<le> daysInMonth y m
             then Some (daysFromEpoch y m d * 86400000) else None
         | _ \<Rightarrow> None)
      else None)"
| "parseIsoDate _ = None"

text \<open>\<open>new Date(s).getTime()\<close>; \<open>None\<close> is NaN.\<close>

definition getTime :: "runtime \<Rightarrow> string \<Rightarrow> int option" where
  "getTime rt s = (case parseIsoDate s of Some t \<Rightarrow> Some t | None \<Rightarrow> dateFallback rt s)"

subsection \<open>Sorting an array\<close>

text \<open>
  The comparator of \<open>addMetricReading\<close>,
  \<^verbatim>\<open>(a, b) => new Date(a.date).getTime() - new Date(b.date).getTime()\<close>.
  A time value is an integer; the difference is \<open>None\<close> for NaN, and its sign is that of the
  difference of the integers.
\<close>

definition compareDates :: "runtime \<Rightarrow> metricReading \<Rightarrow> metricReading \<Rightarrow> int option" where
  "compareDates rt a b =
     (case (getTime rt (reading_date a), getTime rt (reading_date b)) of
        (Some x, Some y) \<Rightarrow> Some (x - y)
      | _ \<Rightarrow> None)"

text \<open>\<open>Array.prototype.sort\<close> reads a comparator's result NaN as \<open>+0\<close>.\<close>

definition sortCompare :: "('a \<Rightarrow> 'a \<Rightarrow> int option) \<Rightarrow> 'a \<Rightarrow> 'a \<Rightarrow> int" where
  "sortCompare comparefn x y = (case comparefn x y of None \<Rightarrow> 0 | Some v \<Rightarrow> v)"

text \<open>
  \<open>Array.prototype.sort\<close> is stable. With a consistent comparator the sorted order is
  unique, and this insertion sort computes it; it takes each element, from the last one
  on, to the front of the elements that do not come before it.
\<close>

fun insertSorted :: "('a \<Rightarrow> 'a \<Rightarrow> int option) \<Rightarrow> 'a \<Rightarrow> 'a list \<Rightarrow> 'a list" where
  "insertSorted c x [] = [x]"
| "insertSorted c x (y # ys) =
     (if sortCompare c x y \<le> 0 then x # y # ys else y # insertSorted c x ys)"

definition arraySort :: "('a \<Rightarrow> 'a \<Rightarrow> int option) \<Rightarrow> 'a list \<Rightarrow> 'a list" where
  "arraySort c xs = foldr (insertSorted c) xs []"

section \<open>useHealthMetrics\<close>

text \<open>
  \<open>setMetrics(document)\<close> with a document that came from the store. Its objects are new:
  the state object starts without properties, and each entry in turn puts a new object on
  the heap and makes it the value of its key, a later entry of a key replacing an earlier
  one.
\<close>

definition installEntry :: "string \<times> metricData \<Rightarrow> metricsState \<Rightarrow> metricsState" where
  "installEntry e st =
     \<lparr>heap = (heap st)(nextAddr st := snd e),
      metrics = (metrics st)(fst e \<mapsto> nextAddr st),
      nextAddr = Suc (nextAddr st)\<rparr>"

definition installDocument :: "(string \<times> metricData) list \<Rightarrow> metricsState \<Rightarrow> metricsState" where
  "installDocument entries st = fold installEntry entries (st\<lparr>metrics := Map.empty\<rparr>)"

text \<open>
  What the effect of a hook leaves behind (\<open>fetchMetrics\<close>, \<open>fetchLabReports\<close>): the state,
  the flag \<open>isLoading\<close>, and the requests and console messages. The effect returns nothing
  and shows no toast.
\<close>

record 's loaded =
  loaded_cache :: 's
  isLoading :: bool
  load_requests :: "request list"
  load_console :: "string list"

text \<open>
  The state variable \<open>metrics\<close> as a load can leave it. \<open>setMetrics(parsedMetrics)\<close> at line
  477 stores whatever \<open>JSON.parse\<close> returned: the state is the document of \<open>memory\<close>, or,
  when \<open>notDocument\<close> holds a value, that value, which is not a document.
\<close>

record metricsHook =
  memory :: metricsState
  notDocument :: "json option"

text \<open>
  The effect of \<open>useHealthMetrics\<close> with \<open>fetchMetrics\<close> (lines 455 to 494). The reply's
  data is \<open>data.metrics\<close> of the row; an empty text is falsy.
\<close>

definition fetchMetrics ::
  "runtime \<Rightarrow> userId option \<Rightarrow> metricsHook \<Rightarrow> metricsColumn reply \<Rightarrow> metricsHook loaded" where
  "fetchMetrics rt user st reply =
     (case user of
        None \<Rightarrow> \<lparr>loaded_cache = st, isLoading = False, load_requests = [], load_console = []\<rparr>
      | Some uid \<Rightarrow>
          let req = [SelectSingle ''health_metrics'' uid] in
          (case reply of
             Rejected \<Rightarrow>
               \<lparr>loaded_cache = st, isLoading = False, load_requests = req,
                load_console = [''Unexpected error:'']\<rparr>
           | Reply d (Some e) \<Rightarrow>
               \<lparr>loaded_cache = st, isLoading = False, load_requests = req,
                load_console = [''Error fetching health metrics:'']\<rparr>
           | Reply None None \<Rightarrow>
               \<lparr>loaded_cache = st, isLoading = False, load_requests = req, load_console = []\<rparr>
           | Reply (Some MetricsNull) None \<Rightarrow>
               \<lparr>loaded_cache = st, isLoading = False, load_requests = req, load_console = []\<rparr>
           | Reply (Some (MetricsText s)) None \<Rightarrow>
               if s = [] then
                 \<lparr>loaded_cache = st, isLoading = False, load_requests = req, load_console = []\<rparr>
               else
                 (case parseMetrics rt s of
                    SyntaxError \<Rightarrow>
                      \<lparr>loaded_cache = st, isLoading = False, load_requests = req,
                       load_console = [''Error parsing metrics JSON:'']\<rparr>
                  | OfType parsedMetrics \<Rightarrow>
                      \<lparr>loaded_cache =
                         \<lparr>memory = installDocument parsedMetrics (memory st), notDocument = None\<rparr>,
                       isLoading = False, load_requests = req, load_console = []\<rparr>
                  | NotOfType parsedMetrics \<Rightarrow>
                      \<lparr>loaded_cache = st\<lparr>notDocument := Some parsedMetrics\<rparr>,
                       isLoading = False, load_requests = req, load_console = []\<rparr>)
           | Reply (Some (MetricsObject entries)) None \<Rightarrow>
               \<lparr>loaded_cache =
                  \<lparr>memory = installDocument entries (memory st), notDocument = None\<rparr>,
                isLoading = False, load_requests = req, load_console = []\<rparr>))"

text \<open>The readings of the object at an address, \<open>o.readings || []\<close>.\<close>

definition readingsOf :: "metricsState \<Rightarrow> addr \<Rightarrow> metricReading list" where
  "readingsOf st a = (case readings (heap st a) of Some rs \<Rightarrow> rs | None \<Rightarrow> [])"

text \<open>
  \<open>addMetricReading\<close> (lines 496 to 599), on a state that is a document. \<open>now\<close> is the
  value of \<open>Date.now()\<close>.
  \<open>updatedMetrics = { ...metrics }\<close> copies the own properties of the state object; the
  objects they refer to are those of the state. The assignment to
  \<open>updatedMetrics[metricKey].readings\<close> and the sort of that array are therefore writes to
  the heap, made before the first request, and they stay when the function leaves through
  its \<open>catch\<close> block.
\<close>

definition addMetricReading ::
  "runtime \<Rightarrow> userId option \<Rightarrow> metricsState \<Rightarrow> string \<Rightarrow> string \<Rightarrow> number \<Rightarrow> int
     \<Rightarrow> string reply \<Rightarrow> unit reply \<Rightarrow> metricsState outcome" where
  "addMetricReading rt user st metricKey date val now checkReply writeReply =
     (case user of
        None \<Rightarrow>
          \<lparr>result = Boolean False, cache = st,
           toasts = [authenticationRequired ''Please log in to add health metrics''],
           requests = [], console = []\<rparr>
      | Some uid \<Rightarrow>
          let updatedMetrics = metrics st;
              newReading = \<lparr>reading_id = metricKey @ showInt now, reading_date = date,
                            reading_value = val\<rparr>
          in (case getProperty rt updatedMetrics metricKey of
                None \<Rightarrow>
                  \<lparr>result = Boolean False, cache = st,
                   toasts = [\<lparr>title = ''Invalid metric'',
                              description = ''The specified metric type does not exist'',
                              variant = Destructive\<rparr>],
                   requests = [], console = []\<rparr>
              | Some a \<Rightarrow>
                  let appended = readingsOf st a @ [newReading];
                      heap1 = (heap st)(a := (heap st a)\<lparr>readings := Some appended\<rparr>);
                      heap2 = heap1(a := (heap1 a)\<lparr>readings :=
                                 Some (arraySort (compareDates rt) appended)\<rparr>);
                      mutated = st\<lparr>heap := heap2\<rparr>;
                      check = SelectId ''health_metrics'' uid;
                      metricsForStorage =
                        stringifyMetrics rt (\<lambda>k. map_option heap2 (updatedMetrics k));
                      write = (case existingId checkReply of
                                 Some i \<Rightarrow> Update ''health_metrics'' i (MetricsRow None metricsForStorage)
                               | None \<Rightarrow> Insert ''health_metrics'' (MetricsRow (Some uid) metricsForStorage))
                  in if checkThrows checkReply then
                       \<lparr>result = Boolean False, cache = mutated,
                        toasts = [updateFailed ''Could not save metric reading''],
                        requests = [check], console = [''Error saving metric reading:'']\<rparr>
                     else if writeThrows writeReply then
                       \<lparr>result = Boolean False, cache = mutated,
                        toasts = [updateFailed ''Could not save metric reading''],
                        requests = [check, write], console = [''Error saving metric reading:'']\<rparr>
                     else
                       \<lparr>result = Boolean True, cache = mutated\<lparr>metrics := updatedMetrics\<rparr>,
                        toasts = [\<lparr>title = ''Reading added'',
                                   description = ''New ''
                                     @ (case md_name (heap2 a) of Some n \<Rightarrow> n | None \<Rightarrow> ''undefined'')
                                     @ '' reading has been added'',
                                   variant = DefaultVariant\<rparr>],
                        requests = [check, write], console = []\<rparr>))"

text \<open>
  The members of \<open>Object.prototype\<close>, at addresses of their own, and the initial state of
  the hook (lines 428 to 452) on a heap that holds them.
\<close>

definition objectPrototype :: "(string \<times> addr) list" where
  "objectPrototype =
     [(''constructor'', 0), (''__defineGetter__'', 1), (''__defineSetter__'', 2),
      (''hasOwnProperty'', 3), (''__lookupGetter__'', 4), (''__lookupSetter__'', 5),
      (''isPrototypeOf'', 6), (''propertyIsEnumerable'', 7), (''toString'', 8),
      (''valueOf'', 9), (''__proto__'', 10), (''toLocaleString'', 11)]"

definition plainObject :: "string option \<Rightarrow> metricData" where
  "plainObject n = \<lparr>md_name = n, md_unit = None, normal_range = None, readings = None\<rparr>"

definition initialMetrics :: metricsState where
  "initialMetrics =
     \<lparr>heap = (\<lambda>a. plainObject None)
        (0 := plainObject (Some ''Object''),
         1 := plainObject (Some ''__defineGetter__''),
         2 := plainObject (Some ''__defineSetter__''),
         3 := plainObject (Some ''hasOwnProperty''),
         4 := plainObject (Some ''__lookupGetter__''),
         5 := plainObject (Some ''__lookupSetter__''),
         6 := plainObject (Some ''isPrototypeOf''),
         7 := plainObject (Some ''propertyIsEnumerable''),
         8 := plainObject (Some ''toString''),
         9 := plainObject (Some ''valueOf''),
         10 := plainObject None,
         11 := plainObject (Some ''toLocaleString''),
         12 := \<lparr>md_name = Some ''Blood Pressure'', md_unit = Some ''mmHg'',
                normal_range = Some (Fin 90, Fin 120), readings = Some []\<rparr>,
         13 := \<lparr>md_name = Some ''Heart Rate'', md_unit = Some ''bpm'',
                normal_range = Some (Fin 60, Fin 100), readings = Some []\<rparr>,
         14 := \<lparr>md_name = Some ''Blood Glucose'', md_unit = Some ''mg/dL'',
                normal_range = Some (Fin 70, Fin 100), readings = Some []\<rparr>,
         15 := \<lparr>md_name = Some ''Weight'', md_unit = Some ''kg'',
                normal_range = None, readings = Some []\<rparr>),
      metrics = map_of [(''bloodPressure'', 12), (''heartRate'', 13), (''glucose'', 14),
                        (''weight'', 15)],
      nextAddr = 16\<rparr>"

section \<open>useLabReports\<close>

text \<open>
  The body of \<open>data.map\<close> in \<open>fetchLabReports\<close> (lines 628 to 657), with the console
  messages it makes. \<open>testResults\<close> is what \<open>JSON.parse\<close> returned for a text, whatever it
  is.
\<close>

definition transformRow :: "runtime \<Rightarrow> labRow \<Rightarrow> labReport \<times> string list" where
  "transformRow rt item =
     (let st = (if row_status item = ''normal'' \<or> row_status item = ''abnormal''
                  \<or> row_status item = ''pending''
                then row_status item else ''pending'');
          parsed =
            (case row_testresults item of
               ResultsNull \<Rightarrow> (None, [])
             | ResultsText s \<Rightarrow>
                 if s = [] then (None, [])
                 else (case parseResults rt s of
                         SyntaxError \<Rightarrow> (None, [''Error parsing test results:''])
                       | OfType rs \<Rightarrow> (Some (Results rs), [])
                       | NotOfType v \<Rightarrow> (Some (UncheckedResults v), []))
             | ResultsArray rs \<Rightarrow> (Some (Results rs), []))
      in (\<lparr>report_id = row_id item, report_name = row_name item, report_date = row_date item,
           status = st,
           fileUrl = (case row_fileurl item of
                        Some u \<Rightarrow> if u = [] then None else Some u | None \<Rightarrow> None),
           testResults = fst parsed\<rparr>,
          snd parsed))"

text \<open>The effect of \<open>useLabReports\<close> with \<open>fetchLabReports\<close> (lines 611 to 669).\<close>

definition fetchLabReports ::
  "runtime \<Rightarrow> userId option \<Rightarrow> labReport list \<Rightarrow> labRow list reply \<Rightarrow> labReport list loaded" where
  "fetchLabReports rt user reports reply =
     (case user of
        None \<Rightarrow>
          \<lparr>loaded_cache = reports, isLoading = False, load_requests = [], load_console = []\<rparr>
      | Some uid \<Rightarrow>
          let req = [SelectRows ''health_lab_reports'' uid] in
          (case reply of
             Rejected \<Rightarrow>
               \<lparr>loaded_cache = reports, isLoading = False, load_requests = req,
                load_console = [''Unexpected error:'']\<rparr>
           | Reply d (Some e) \<Rightarrow>
               \<lparr>loaded_cache = reports, isLoading = False, load_requests = req,
                load_console = [''Error fetching lab reports:'']\<rparr>
           | Reply None None \<Rightarrow>
               \<lparr>loaded_cache = reports, isLoading = False, load_requests = req,
                load_console = []\<rparr>
           | Reply (Some rows) None \<Rightarrow>
               \<lparr>loaded_cache = map (\<lambda>item. fst (transformRow rt item)) rows,
                isLoading = False, load_requests = req,
                load_console = concat (map (\<lambda>item. snd (transformRow rt item)) rows)\<rparr>))"

text \<open>
  \<open>addLabReport\<close> (lines 671 to 738). The reply's data is the array of rows that
  \<open>insert(newReport).select()\<close> returns. \<open>JSON.parse\<close> of the returned text is inside the
  \<open>try\<close> block, so a text that does not parse takes the \<open>catch\<close> block.
\<close>

definition addLabReport ::
  "runtime \<Rightarrow> userId option \<Rightarrow> labReport list \<Rightarrow> labReportInput \<Rightarrow> labRow list reply
     \<Rightarrow> labReport list outcome" where
  "addLabReport rt user reports report reply =
     (case user of
        None \<Rightarrow>
          \<lparr>result = Boolean False, cache = reports,
           toasts = [authenticationRequired ''Please log in to add lab reports''],
           requests = [], console = []\<rparr>
      | Some uid \<Rightarrow>
          let newReport =
                \<lparr>ins_name = in_name report, ins_date = in_date report,
                 ins_status = in_status report,
                 ins_fileurl = (case in_fileUrl report of
                                  Some u \<Rightarrow> if u = [] then None else Some u | None \<Rightarrow> None),
                 ins_testresults = map_option (stringifyResults rt) (in_testResults report),
                 ins_user_id = uid\<rparr>;
              req = [InsertSelect ''health_lab_reports'' (LabRow newReport)];
              failed = \<lparr>result = Boolean False, cache = reports,
                        toasts = [updateFailed ''Could not save lab report''],
                        requests = req, console = [''Error saving lab report:'']\<rparr>
          in (case reply of
                Rejected \<Rightarrow> failed
              | Reply d (Some e) \<Rightarrow> failed
              | Reply None None \<Rightarrow>
                  \<lparr>result = Boolean False, cache = reports, toasts = [], requests = req,
                   console = []\<rparr>
              | Reply (Some []) None \<Rightarrow>
                  \<lparr>result = Boolean False, cache = reports, toasts = [], requests = req,
                   console = []\<rparr>
              | Reply (Some (row # others)) None \<Rightarrow>
                  (case (case row_testresults row of
                           ResultsNull \<Rightarrow> Some None
                         | ResultsText s \<Rightarrow>
                             if s = [] then Some None
                             else (case parseResults rt s of
                                     SyntaxError \<Rightarrow> None
                                   | OfType rs \<Rightarrow> Some (Some (Results rs))
                                   | NotOfType v \<Rightarrow> Some (Some (UncheckedResults v)))
                         | ResultsArray rs \<Rightarrow> Some (Some (Results rs))) of
                     None \<Rightarrow> failed
                   | Some results \<Rightarrow>
                       \<lparr>result = Boolean True,
                        cache = reports @
                          [\<lparr>report_id = row_id row, report_name = row_name row,
                            report_date = row_date row, status = row_status row,
                            fileUrl = (case row_fileurl row of
                                         Some u \<Rightarrow> if u = [] then None else Some u
                                       | None \<Rightarrow> None),
                            testResults = results\<rparr>],
                        toasts = [\<lparr>title = ''Lab report added'',
                                   description = in_name report
                                     @ '' has been added to your lab reports'',
                                   variant = DefaultVariant\<rparr>],
                        requests = req, console = []\<rparr>)))"

text \<open>\<open>deleteLabReport\<close> (lines 740 to 776).\<close>

definition deleteLabReport ::
  "userId option \<Rightarrow> labReport list \<Rightarrow> string \<Rightarrow> unit reply \<Rightarrow> labReport list outcome" where
  "deleteLabReport user reports i reply =
     (case user of
        None \<Rightarrow>
          \<lparr>result = Boolean False, cache = reports, toasts = [], requests = [], console = []\<rparr>
      | Some uid \<Rightarrow>
          let req = [Delete ''health_lab_reports'' i uid] in
          if writeThrows reply then
            \<lparr>result = Boolean False, cache = reports,
             toasts = [\<lparr>title = ''Delete failed'', description = ''Could not remove lab report'',
                        variant = Destructive\<rparr>],
             requests = req, console = [''Error deleting lab report:'']\<rparr>
          else
            \<lparr>result = Boolean True,
             cache = filter (\<lambda>report. report_id report \<noteq> i) reports,
             toasts = [\<lparr>title = ''Lab report removed'',
                        description = ''The lab report has been removed from your records'',
                        variant = DefaultVariant\<rparr>],
             requests = req, console = []\<rparr>)"

text \<open>
  The rows of the table \<open>health_lab_reports\<close>, by id and owner, that the request
  \<open>delete().eq('id', i).eq('user_id', uid)\<close> leaves in the store.
\<close>

definition remoteDelete :: "string \<Rightarrow> userId \<Rightarrow> (string \<times> userId) list \<Rightarrow> (string \<times> userId) list" where
  "remoteDelete i uid rows = filter (\<lambda>row. \<not> (fst row = i \<and> snd row = uid)) rows"

section \<open>Inputs for the examples\<close>

text \<open>
  \<open>JSON.parse\<close> on the texts of the examples: \<open>5\<close> and \<open>null\<close> are JSON, and neither a
  metrics document nor a list of test results; the other texts the examples use, the empty
  text and \<open>{oops\<close>, are not JSON.
\<close>

definition exampleParse :: "string \<Rightarrow> 'a parsed" where
  "exampleParse s =
     (if s = ''5'' then NotOfType (JNumber (Fin 5))
      else if s = ''null'' then NotOfType JNull
      else SyntaxError)"

text \<open>
  A runtime for the examples: \<open>Object.prototype\<close> has its standard members, and no string
  but a calendar date in the format \<open>YYYY-MM-DD\<close> reads as a date. The examples do not look
  at what \<open>JSON.stringify\<close> returns.
\<close>

definition exampleRuntime :: runtime where
  "exampleRuntime =
     \<lparr>inherited = map_of objectPrototype,
      dateFallback = (\<lambda>s. None),
      stringifyMetrics = (\<lambda>d. []),
      parseMetrics = exampleParse,
      stringifyResults = (\<lambda>rs. []),
      parseResults = exampleParse\<rparr>"

text \<open>The state of \<open>useHealthMetrics\<close> before any load.\<close>

definition initialMetricsHook :: metricsHook where
  "initialMetricsHook = \<lparr>memory = initialMetrics, notDocument = None\<rparr>"



text \<open>An update of the vitals that has nothing but a weight.\<close>

definition onlyWeight :: "number \<Rightarrow> vitalsInfoPartial" where
  "onlyWeight w =
     \<lparr>upd_v_id = None, upd_v_user_id = None, upd_height = None, upd_weight = Some w,
      upd_bmi = None, upd_blood_group = None\<rparr>"

text \<open>The replies of the store: no row yet, a write that went through, a failure.\<close>

definition noRow :: "string reply" where
  "noRow = Reply None (Some \<lparr>error_code = ''PGRST116''\<rparr>)"

definition written :: "unit reply" where
  "written = Reply None None"

definition serverError :: "'a reply" where
  "serverError = Reply None (Some \<lparr>error_code = ''500''\<rparr>)"

definition exampleReport :: "string \<Rightarrow> labReport" where
  "exampleReport i =
     \<lparr>report_id = i, report_name = ''Blood count'', report_date = ''2024-01-01'',
      status = ''normal'', fileUrl = None, testResults = None\<rparr>"

definition exampleRow :: "resultsColumn \<Rightarrow> labRow" where
  "exampleRow c =
     \<lparr>row_id = ''r1'', row_name = ''Blood count'', row_date = ''2024-01-01'',
      row_status = ''normal'', row_fileurl = None, row_testresults = c\<rparr>"

section \<open>The reading order the specification names\<close>



section \<open>Properties\<close>

subsection \<open>Values of the derived field\<close>

lemma calculateBMI_170_68: "calculateBMI (Fin 170) (Fin 68) = Fin (47 / 2)"
  by code_simp

lemma calculateBMI_170_0: "calculateBMI (Fin 170) (Fin 0) = Fin 0"
  by code_simp

text \<open>
  In binary64 the quotient \<open>16 / (1.6 * 1.6)\<close> is \<open>6.249999999999999\<close>, below the real
  quotient \<open>6.25\<close>; it is this number that \<open>toFixed\<close> rounds.
\<close>

lemma quotient_160_16:
  "fdiv (Fin 16) (fmul (fdiv (Fin 160) (Fin 100)) (fdiv (Fin 160) (Fin 100)))
     = Fin (7036874417766399 / 1125899906842624)"
  by code_simp

subsection \<open>Rounding to binary64 and to one decimal\<close>

lemma pow2_powi: "pow2 e = 2 powi e"
  by (simp add: pow2_def power_int_def inverse_eq_divide power_one_over)

lemma toFixed_n: 
  fixes y :: rat
  shows "(if y - of_int \<lfloor>y\<rfloor> < of_int (\<lfloor>y\<rfloor> + 1) - y then \<lfloor>y\<rfloor> else \<lfloor>y\<rfloor> + 1) = \<lfloor>y + 1 / 2\<rfloor>"
proof (cases "y - of_int \<lfloor>y\<rfloor> < of_int (\<lfloor>y\<rfloor> + 1) - y")
  case True
  then have "\<lfloor>y + 1 / 2\<rfloor> = \<lfloor>y\<rfloor>"
    by (intro floor_unique) (simp_all add: algebra_simps, linarith+)
  with True show ?thesis by simp
next
  case False
  then have "\<lfloor>y + 1 / 2\<rfloor> = \<lfloor>y\<rfloor> + 1"
    by (intro floor_unique) (simp_all add: algebra_simps, linarith+)
  with False show ?thesis by simp
qed

lemma toFixed_small:
  assumes "\<bar>q\<bar> < 10 ^ 21"
  shows "toFixed f (Fin q) = TextFixed (q < 0) \<lfloor>\<bar>q\<bar> * 10 ^ f + 1 / 2\<rfloor> f"
proof -
  have "\<not> 10 ^ 21 \<le> \<bar>q\<bar>" using assms by simp
  then show ?thesis
    unfolding toFixed_def Let_def number.case
    by (simp only: if_False toFixed_n)
qed

lemma floor_half: "\<lfloor>1 / 2 :: rat\<rfloor> = 0"
  by (rule floor_unique) simp_all

lemma parseFloat_toFixed_small:
  assumes "\<bar>q\<bar> < 10 ^ 21"
  shows "parseFloat (toFixed 1 (Fin q)) = toDouble (roundHalfAwayFromZero 1 q)"
proof -
  have s: "(if q < 0 then - 1 else 1) * (of_int \<lfloor>\<bar>q\<bar> * 10 ^ 1 + 1 / 2\<rfloor> :: rat)
             = sgn q * of_int \<lfloor>\<bar>q\<bar> * 10 ^ 1 + 1 / 2\<rfloor>"
    by (cases "q = 0") (auto simp: sgn_if floor_half)
  show ?thesis
    unfolding toFixed_small[OF assms] roundHalfAwayFromZero_def parseFloat.simps
    by (simp only: s)
qed

lemma bits_nonneg: "0 \<le> bits n"
  by (induction n rule: bits.induct) (subst bits.simps, simp)

lemma bits_upper: "0 \<le> n \<Longrightarrow> n < 2 ^ nat (bits n)"
proof (induction n rule: bits.induct)
  case (1 n)
  show ?case
  proof (cases "n \<le> 0")
    case True
    with 1 show ?thesis by (subst bits.simps) simp
  next
    case False
    then have ih: "n div 2 < 2 ^ nat (bits (n div 2))" using 1 by simp
    have "nat (1 + bits (n div 2)) = Suc (nat (bits (n div 2)))"
      using bits_nonneg[of "n div 2"] by simp
    then show ?thesis using ih False by (subst bits.simps) simp
  qed
qed


lemma bits_lower: "0 < n \<Longrightarrow> 2 ^ nat (bits n - 1) \<le> n"
proof (induction n rule: bits.induct)
  case (1 n)
  show ?case
  proof (cases "n div 2 = 0")
    case True
    then have "bits (n div 2) = 0" by (subst bits.simps) simp
    then show ?thesis using 1(2) by (subst bits.simps) simp
  next
    case False
    with 1(2) have pos: "0 < n div 2" by (simp add: pos_imp_zdiv_pos_iff) 
    then have ih: "2 ^ nat (bits (n div 2) - 1) \<le> n div 2" using 1 by simp
    have "0 < bits (n div 2)" using pos by (subst bits.simps) (simp add: add_pos_nonneg bits_nonneg)
    then have "nat (bits (n div 2)) = Suc (nat (bits (n div 2) - 1))" by simp
    then show ?thesis using ih 1(2) by (subst bits.simps) simp
  qed
qed

lemma ilog2_upper:
  assumes "0 < x"
  shows "x < pow2 (ilog2 x + 1)"
proof -
  obtain p q where pq: "quotient_of x = (p, q)" by (cases "quotient_of x")
  then have q: "0 < q" and x: "x = of_int p / of_int q"
    using quotient_of_denom_pos quotient_of_div by auto
  with assms have p: "0 < p" by (simp add: zero_less_divide_iff)
  have pu: "(of_int p :: rat) < 2 powi (bits p)"
  proof -
    have "p < 2 ^ nat (bits p)" using bits_upper[of p] p by simp
    then have "(of_int p :: rat) < of_int (2 ^ nat (bits p))" by (simp only: of_int_less_iff)
    then show ?thesis using bits_nonneg[of p] by (simp add: power_int_def)
  qed
  have ql: "(2::rat) powi (bits q - 1) \<le> of_int q"
  proof -
    have "2 ^ nat (bits q - 1) \<le> q" using bits_lower[OF q] .
    then have "(of_int (2 ^ nat (bits q - 1)) :: rat) \<le> of_int q" by (simp only: of_int_le_iff)
    moreover have "0 < bits q" using q by (subst bits.simps) (simp add: add_pos_nonneg bits_nonneg)
    ultimately show ?thesis by (simp add: power_int_def)
  qed
  have "x < 2 powi (bits p) / 2 powi (bits q - 1)"
    unfolding x using pu ql q
    using p by (intro frac_less) simp_all
  also have "\<dots> = 2 powi (bits p - (bits q - 1))"
    by (subst power_int_diff) simp_all
  also have "bits p - (bits q - 1) = bits p - bits q + 1"
    by simp
  finally have k: "x < pow2 (bits p - bits q + 1)" by (simp add: pow2_powi)
  show ?thesis
  proof (cases "pow2 (bits p - bits q) \<le> x")
    case True
    then show ?thesis using k pq by (simp add: ilog2_def)
  next
    case False
    then show ?thesis using pq by (simp add: ilog2_def)
  qed
qed

lemma roundHalfEven_le: "roundHalfEven y \<le> \<lfloor>y\<rfloor> + 1"
  by (simp add: roundHalfEven_def Let_def)

lemma roundPos_int:
  assumes "0 < x" and "10 ^ 21 \<le> roundPos x"
  shows "roundPos x \<in> \<int>"
proof -
  define e where "e = max (ilog2 x - 52) (- 1074)"
  define m where "m = roundHalfEven (x / pow2 e)"
  have r: "roundPos x = of_int m * pow2 e"
    by (simp add: roundPos_def Let_def e_def m_def)
  have pos: "0 < pow2 e" by (simp add: pow2_powi)
  have "x < 2 powi (ilog2 x + 1)" using ilog2_upper[OF assms(1)] by (simp add: pow2_powi)
  also have "\<dots> \<le> 2 powi (e + 53)"
    by (intro power_int_increasing) (simp_all add: e_def)
  also have "\<dots> = pow2 e * 2 ^ 53"
    by (simp add: pow2_powi power_int_add)
  finally have "x / pow2 e < 2 ^ 53" using pos by (simp add: pos_divide_less_eq mult.commute)
  then have "x / pow2 e < of_int (2 ^ 53)" by simp
  then have "\<lfloor>x / pow2 e\<rfloor> < 2 ^ 53" by (simp only: floor_less_iff)
  then have m: "m \<le> 2 ^ 53" using roundHalfEven_le[of "x / pow2 e"] unfolding m_def by linarith
  have "1 \<le> e"
  proof (rule ccontr)
    assume "\<not> 1 \<le> e"
    then have "e \<le> 0" by simp
    then have "pow2 e \<le> 1" by (simp add: pow2_def)
    moreover have "(of_int m :: rat) \<le> 2 ^ 53" using m by (metis of_int_le_iff of_int_numeral of_int_power)
    moreover have "0 \<le> (of_int m :: rat)"
    proof -
      have "(0::rat) < 10 ^ 21" by simp
      then have "(0::rat) < of_int m * pow2 e" using assms(2) unfolding r by (rule less_le_trans)
      then show ?thesis using pos by (simp add: zero_less_mult_iff)
    qed
    ultimately have "of_int m * pow2 e \<le> 2 ^ 53 * 1"
      using pos by (intro mult_mono) simp_all
    then show False using assms(2) unfolding r by simp
  qed
  then have "pow2 e = of_int (2 ^ nat e)" by (simp add: pow2_def)
  then show ?thesis unfolding r by (metis Ints_mult Ints_of_int)
qed

lemma toDouble_int:
  assumes "toDouble x = Fin r" and "10 ^ 21 \<le> \<bar>r\<bar>"
  shows "r \<in> \<int>"
proof (cases "x = 0")
  case True
  with assms show ?thesis by (simp add: toDouble_def)
next
  case False
  then have ax: "0 < \<bar>x\<bar>" by simp
  from assms(1) False have r: "r = (if 0 < x then roundPos \<bar>x\<bar> else - roundPos \<bar>x\<bar>)"
    by (auto simp: toDouble_def Let_def split: if_splits)
  have nn: "0 \<le> roundPos \<bar>x\<bar>"
    by (simp add: roundPos_def Let_def pow2_powi roundHalfEven_def floor_less_iff)
  with r assms(2) have "10 ^ 21 \<le> roundPos \<bar>x\<bar>" by (auto split: if_splits)
  from roundPos_int[OF ax this] show ?thesis using r by (auto split: if_splits)
qed

lemma fdiv_int:
  assumes "fdiv x y = Fin q" and "10 ^ 21 \<le> \<bar>q\<bar>"
  shows "q \<in> \<int>"
  using assms
  by (cases x; cases y) (auto simp: signedInf_def toDouble_int split: if_splits)

lemma roundHalfAwayFromZero_int:
  assumes "q \<in> \<int>"
  shows "roundHalfAwayFromZero f q = q"
proof -
  from assms obtain k where k: "q = of_int k" by (auto elim: Ints_cases)
  have "\<bar>q\<bar> * 10 ^ f + 1 / 2 = of_int (\<bar>k\<bar> * 10 ^ f) + 1 / 2" by (simp add: k)
  moreover have "\<lfloor>(of_int (\<bar>k\<bar> * 10 ^ f) :: rat) + 1 / 2\<rfloor> = \<bar>k\<bar> * 10 ^ f"
    by (rule floor_unique) simp_all
  ultimately have "\<lfloor>\<bar>q\<bar> * 10 ^ f + 1 / 2\<rfloor> = \<bar>k\<bar> * 10 ^ f"
    by simp
  then show ?thesis
    by (simp add: roundHalfAwayFromZero_def k sgn_if)
qed

lemma toFixed_large:
  assumes "\<not> \<bar>q\<bar> < 10 ^ 21"
  shows "toFixed f (Fin q) = TextToString q"
  using assms by (simp add: toFixed_def Let_def)


text \<open>
  Claim C8. \<open>calculateBMI\<close> is a function of its two arguments: the quotient
  \<open>weight / (height / 100)^2\<close> of binary64 arithmetic, rounded to one decimal, half away from
  zero, where \<open>toFixed\<close> formats it, and read back as a number. A quotient of \<open>10^21\<close> or more
  is an integer, which the rounding leaves as it is, and a quotient that is not finite is
  returned. \<open>calculateBMI(170, 68)\<close> is \<open>23.5\<close>.
\<close>

theorem calculateBMI_rounds_half_away_from_zero:
  "calculateBMI h w =
     (case fdiv w (fmul (fdiv h (Fin 100)) (fdiv h (Fin 100))) of
        Fin q \<Rightarrow>
          if \<bar>q\<bar> < 10 ^ 21 then toDouble (roundHalfAwayFromZero 1 q)
          else Fin (roundHalfAwayFromZero 1 q)
      | NaN \<Rightarrow> NaN
      | PosInf \<Rightarrow> PosInf
      | NegInf \<Rightarrow> NegInf)
   \<and> calculateBMI (Fin 170) (Fin 68) = Fin (47 / 2)"
proof
  define x where "x = fdiv w (fmul (fdiv h (Fin 100)) (fdiv h (Fin 100)))"
  have c: "calculateBMI h w = parseFloat (toFixed 1 x)"
    by (simp add: calculateBMI_def Let_def x_def)
  have "parseFloat (toFixed 1 x) =
     (case x of
        Fin q \<Rightarrow>
          if \<bar>q\<bar> < 10 ^ 21 then toDouble (roundHalfAwayFromZero 1 q)
          else Fin (roundHalfAwayFromZero 1 q)
      | NaN \<Rightarrow> NaN
      | PosInf \<Rightarrow> PosInf
      | NegInf \<Rightarrow> NegInf)"
  proof (cases x)
    case (Fin q)
    show ?thesis
    proof (cases "\<bar>q\<bar> < 10 ^ 21")
      case True
      then show ?thesis using Fin parseFloat_toFixed_small[OF True] by simp
    next
      case False
      then have "10 ^ 21 \<le> \<bar>q\<bar>" by simp
      with Fin have "q \<in> \<int>" unfolding x_def by (rule fdiv_int)
      then have "roundHalfAwayFromZero 1 q = q" by (rule roundHalfAwayFromZero_int)
      then show ?thesis using Fin False by (simp add: toFixed_large)
    qed
  qed (simp_all add: toFixed_def)
  then show "calculateBMI h w =
     (case fdiv w (fmul (fdiv h (Fin 100)) (fdiv h (Fin 100))) of
        Fin q \<Rightarrow>
          if \<bar>q\<bar> < 10 ^ 21 then toDouble (roundHalfAwayFromZero 1 q)
          else Fin (roundHalfAwayFromZero 1 q)
      | NaN \<Rightarrow> NaN
      | PosInf \<Rightarrow> PosInf
      | NegInf \<Rightarrow> NegInf)"
    unfolding c x_def .
  show "calculateBMI (Fin 170) (Fin 68) = Fin (47 / 2)"
    by (rule calculateBMI_170_68)
qed

theorem calculateBMI_rounds_half_away_from_zero_witness:
  "calculateBMI (Fin 160) (Fin 16)
     = toDouble (roundHalfAwayFromZero 1 (7036874417766399 / 1125899906842624))"
proof -
  have "\<bar>7036874417766399 / 1125899906842624 :: rat\<bar> < 10 ^ 21"
    by simp
  then show ?thesis
    using calculateBMI_rounds_half_away_from_zero [of "Fin 160" "Fin 16"]
    unfolding quotient_160_16 number.case
    by (simp only: if_True)
qed

subsection \<open>Calls without an active user\<close>

lemma unauthenticated_no_request:
  "requests (updatePersonalInfo None p pu c w) = [] \<and> cache (updatePersonalInfo None p pu c w) = p
   \<and> requests (updateVitalsInfo None v vu c w) = [] \<and> cache (updateVitalsInfo None v vu c w) = v
   \<and> requests (updateLifestyleInfo None l lu c w) = [] \<and> cache (updateLifestyleInfo None l lu c w) = l
   \<and> requests (addMetricReading rt None st k d x now c w) = []
   \<and> cache (addMetricReading rt None st k d x now c w) = st
   \<and> requests (addLabReport rt None rs r lr) = [] \<and> cache (addLabReport rt None rs r lr) = rs
   \<and> requests (deleteLabReport None rs i w) = [] \<and> cache (deleteLabReport None rs i w) = rs"
  by (simp add: updatePersonalInfo_def updateVitalsInfo_def updateLifestyleInfo_def
      addMetricReading_def addLabReport_def deleteLabReport_def)

lemma unauthenticated_add_reports_failure:
  "result (addMetricReading rt None st k d x now c w) = Boolean False
   \<and> toasts (addMetricReading rt None st k d x now c w)
       = [authenticationRequired ''Please log in to add health metrics'']
   \<and> result (addLabReport rt None rs r lr) = Boolean False
   \<and> toasts (addLabReport rt None rs r lr)
       = [authenticationRequired ''Please log in to add lab reports'']"
  by (simp add: addMetricReading_def addLabReport_def)

text \<open>
  Claim C2 says that every write operation without an active user returns \<open>false\<close> and
  shows a failure notification. Evaluated without a user, the three update functions
  return \<open>undefined\<close>, and \<open>deleteLabReport\<close> shows no toast.
\<close>

theorem unauthenticated_update_and_delete:
  "result (updatePersonalInfo None p pu c w) = Undefined
   \<and> result (updateVitalsInfo None v vu c w) = Undefined
   \<and> result (updateLifestyleInfo None l lu c w) = Undefined
   \<and> result (deleteLabReport None rs i w) = Boolean False
   \<and> toasts (deleteLabReport None rs i w) = []"
  by (simp add: updatePersonalInfo_def updateVitalsInfo_def updateLifestyleInfo_def
      deleteLabReport_def)

subsection \<open>Lab reports\<close>

text \<open>
  Claim C10. When the insert of \<open>addLabReport\<close> succeeds and returns an empty array of
  rows, the function returns \<open>false\<close>, leaves the reports as they are, and shows no toast and
  logs nothing, after the one insert request.
\<close>

theorem addLabReport_empty_row_set:
  "result (addLabReport rt (Some uid) reports report (Reply (Some []) None)) = Boolean False
   \<and> cache (addLabReport rt (Some uid) reports report (Reply (Some []) None)) = reports
   \<and> toasts (addLabReport rt (Some uid) reports report (Reply (Some []) None)) = []
   \<and> console (addLabReport rt (Some uid) reports report (Reply (Some []) None)) = []
   \<and> length (requests (addLabReport rt (Some uid) reports report (Reply (Some []) None))) = 1"
  by (simp add: addLabReport_def Let_def)

text \<open>
  Claim C4 says that a successful \<open>deleteLabReport(id)\<close> removes exactly one entry. With an
  id that no local report has, the call succeeds and removes none.
\<close>

theorem deleteLabReport_absent_id_counterexample:
  "result (deleteLabReport (Some ''u1'') [exampleReport ''r1''] ''r2'' written) = Boolean True
   \<and> cache (deleteLabReport (Some ''u1'') [exampleReport ''r1''] ''r2'' written)
       = [exampleReport ''r1'']
   \<and> length (cache (deleteLabReport (Some ''u1'') [exampleReport ''r1''] ''r2'' written)) + 1
       \<noteq> length [exampleReport ''r1'']"
  by (simp add: deleteLabReport_def written_def exampleReport_def)

lemma filter_distinct_length:
  "distinct (map f xs) \<Longrightarrow> i \<in> f ` set xs \<Longrightarrow> length (filter (\<lambda>x. f x \<noteq> i) xs) + 1 = length xs"
proof (induction xs)
  case Nil
  then show ?case by simp
next
  case (Cons x xs)
  show ?case
  proof (cases "f x = i")
    case True
    with Cons.prems have "i \<notin> f ` set xs" by auto
    then have "filter (\<lambda>x. f x \<noteq> i) xs = xs" by (auto simp: filter_id_conv)
    with True show ?thesis by simp
  next
    case False
    with Cons show ?thesis by auto
  qed
qed

text \<open>
  Claim C4, amended. A successful \<open>deleteLabReport(id)\<close> removes the local reports whose id
  is \<open>id\<close> and keeps the others in their order: none when no local report has the id,
  exactly one when the ids are distinct and one has it. In both cases it shows the toast
  \<open>Lab report removed\<close>. Its request is scoped by the id and
  by the active user; it leaves every row of another user in the store, and all rows when
  the active user has no row of that id.
\<close>

theorem deleteLabReport_removes_matching:
  "\<not> writeThrows reply \<longrightarrow>
     result (deleteLabReport (Some uid) reports i reply) = Boolean True
     \<and> toasts (deleteLabReport (Some uid) reports i reply)
         = [\<lparr>title = ''Lab report removed'',
              description = ''The lab report has been removed from your records'',
              variant = DefaultVariant\<rparr>]
     \<and> cache (deleteLabReport (Some uid) reports i reply)
         = filter (\<lambda>report. report_id report \<noteq> i) reports
     \<and> requests (deleteLabReport (Some uid) reports i reply)
         = [Delete ''health_lab_reports'' i uid]
     \<and> (i \<notin> report_id ` set reports \<longrightarrow>
          cache (deleteLabReport (Some uid) reports i reply) = reports)
     \<and> (distinct (map report_id reports) \<and> i \<in> report_id ` set reports \<longrightarrow>
          length (cache (deleteLabReport (Some uid) reports i reply)) + 1 = length reports)
     \<and> filter (\<lambda>row. snd row \<noteq> uid) (remoteDelete i uid rows) = filter (\<lambda>row. snd row \<noteq> uid) rows
     \<and> ((i, uid) \<notin> set rows \<longrightarrow> remoteDelete i uid rows = rows)"
proof (intro impI conjI)
  assume ok: "\<not> writeThrows reply"
  show "result (deleteLabReport (Some uid) reports i reply) = Boolean True"
    using ok by (simp add: deleteLabReport_def)
  show "toasts (deleteLabReport (Some uid) reports i reply)
         = [\<lparr>title = ''Lab report removed'',
              description = ''The lab report has been removed from your records'',
              variant = DefaultVariant\<rparr>]"
    using ok by (simp add: deleteLabReport_def)
  show c: "cache (deleteLabReport (Some uid) reports i reply)
         = filter (\<lambda>report. report_id report \<noteq> i) reports"
    using ok by (simp add: deleteLabReport_def)
  show "requests (deleteLabReport (Some uid) reports i reply) = [Delete ''health_lab_reports'' i uid]"
    using ok by (simp add: deleteLabReport_def)
  show "cache (deleteLabReport (Some uid) reports i reply) = reports"
    if "i \<notin> report_id ` set reports"
    using that unfolding c by (auto simp: filter_id_conv)
  show "length (cache (deleteLabReport (Some uid) reports i reply)) + 1 = length reports"
    if "distinct (map report_id reports) \<and> i \<in> report_id ` set reports"
    using filter_distinct_length[of report_id reports i] that unfolding c by simp
  show "filter (\<lambda>row. snd row \<noteq> uid) (remoteDelete i uid rows) = filter (\<lambda>row. snd row \<noteq> uid) rows"
    by (induction rows) (auto simp: remoteDelete_def)
  show "remoteDelete i uid rows = rows" if "(i, uid) \<notin> set rows"
    using that by (induction rows) (auto simp: remoteDelete_def)
qed

theorem deleteLabReport_removes_matching_witness:
  "\<not> writeThrows written
   \<and> cache (deleteLabReport (Some ''u1'') [exampleReport ''r1'', exampleReport ''r2''] ''r1'' written)
       = [exampleReport ''r2'']
   \<and> cache (deleteLabReport (Some ''u1'') [exampleReport ''r1'', exampleReport ''r2''] ''r3'' written)
       = [exampleReport ''r1'', exampleReport ''r2'']
   \<and> remoteDelete ''r9'' ''u1'' [(''r1'', ''u1''), (''r9'', ''u2'')] = [(''r1'', ''u1''), (''r9'', ''u2'')]"
  using deleteLabReport_removes_matching
    [of written "''u1''" "[exampleReport ''r1'', exampleReport ''r2'']" "''r1''"
        "[(''r1'', ''u1''), (''r9'', ''u2'')]"]
    deleteLabReport_removes_matching
    [of written "''u1''" "[exampleReport ''r1'', exampleReport ''r2'']" "''r3''"
        "[(''r1'', ''u1''), (''r9'', ''u2'')]"]
    deleteLabReport_removes_matching
    [of written "''u1''" "[exampleReport ''r1'', exampleReport ''r2'']" "''r9''"
        "[(''r1'', ''u1''), (''r9'', ''u2'')]"]
  by (simp add: written_def exampleReport_def)

subsection \<open>Loading what the store holds\<close>

text \<open>
  Claim C9 says that for every malformed text payload the decode failure is logged and the
  cache keeps its previous value. Two kinds of text escape it. An empty text is not JSON,
  but it is falsy: both loaders skip it without a call of \<open>JSON.parse\<close>, and nothing is
  logged. The text \<open>5\<close> is JSON and neither a metrics document nor a list of test results:
  \<open>JSON.parse\<close> returns the number, nothing is thrown or logged, and the number becomes the
  metrics state, in place of the document that was there, or the test results of the
  report.
\<close>

theorem unchecked_text_counterexample:
  "load_console (fetchMetrics exampleRuntime (Some ''u1'') initialMetricsHook
       (Reply (Some (MetricsText [])) None)) = []
   \<and> load_console (fetchLabReports exampleRuntime (Some ''u1'') []
         (Reply (Some [exampleRow (ResultsText [])]) None)) = []
   \<and> parseMetrics exampleRuntime ''5'' = NotOfType (JNumber (Fin 5))
   \<and> notDocument initialMetricsHook = None
   \<and> notDocument (loaded_cache (fetchMetrics exampleRuntime (Some ''u1'') initialMetricsHook
         (Reply (Some (MetricsText ''5'')) None))) = Some (JNumber (Fin 5))
   \<and> load_console (fetchMetrics exampleRuntime (Some ''u1'') initialMetricsHook
         (Reply (Some (MetricsText ''5'')) None)) = []
   \<and> parseResults exampleRuntime ''5'' = NotOfType (JNumber (Fin 5))
   \<and> map testResults (loaded_cache (fetchLabReports exampleRuntime (Some ''u1'') []
         (Reply (Some [exampleRow (ResultsText ''5'')]) None)))
       = [Some (UncheckedResults (JNumber (Fin 5)))]
   \<and> load_console (fetchLabReports exampleRuntime (Some ''u1'') []
         (Reply (Some [exampleRow (ResultsText ''5'')]) None)) = []"
  by (simp add: exampleRuntime_def exampleParse_def initialMetricsHook_def fetchMetrics_def
      fetchLabReports_def transformRow_def exampleRow_def Let_def)

text \<open>
  Claim C9, amended, for every text payload that does not parse to a value of the type
  the loader expects. The loaders return nothing and show no toast; both clear the loading
  flag, and the lab report loader puts the report of every row into the state.

  \<^item> An empty text is skipped: the metrics state is kept, the report has no test results,
    and nothing is logged.
  \<^item> A text on which \<open>JSON.parse\<close> throws: the metrics state is kept, the report has no test
    results, and the failure is logged.
  \<^item> A text for which \<open>JSON.parse\<close> returns a value \<open>v\<close> of another type: \<open>v\<close> becomes the
    metrics state, or the test results of the report, and nothing is logged.
\<close>

theorem decode_failure_absorbed:
  "isLoading (fetchMetrics rt (Some uid) st (Reply (Some (MetricsText s)) None)) = False
   \<and> (s = [] \<longrightarrow>
        loaded_cache (fetchMetrics rt (Some uid) st (Reply (Some (MetricsText s)) None)) = st
        \<and> load_console (fetchMetrics rt (Some uid) st (Reply (Some (MetricsText s)) None)) = [])
   \<and> (s \<noteq> [] \<and> parseMetrics rt s = SyntaxError \<longrightarrow>
        loaded_cache (fetchMetrics rt (Some uid) st (Reply (Some (MetricsText s)) None)) = st
        \<and> load_console (fetchMetrics rt (Some uid) st (Reply (Some (MetricsText s)) None))
            = [''Error parsing metrics JSON:''])
   \<and> (s \<noteq> [] \<and> parseMetrics rt s = NotOfType v \<longrightarrow>
        loaded_cache (fetchMetrics rt (Some uid) st (Reply (Some (MetricsText s)) None))
            = st\<lparr>notDocument := Some v\<rparr>
        \<and> load_console (fetchMetrics rt (Some uid) st (Reply (Some (MetricsText s)) None)) = [])
   \<and> isLoading (fetchLabReports rt (Some uid) reports (Reply (Some rows) None)) = False
   \<and> map report_id (loaded_cache (fetchLabReports rt (Some uid) reports (Reply (Some rows) None)))
        = map row_id rows
   \<and> loaded_cache (fetchLabReports rt (Some uid) reports (Reply (Some rows) None))
        = map (\<lambda>row. fst (transformRow rt row)) rows
   \<and> load_console (fetchLabReports rt (Some uid) reports (Reply (Some rows) None))
        = concat (map (\<lambda>row. snd (transformRow rt row)) rows)
   \<and> (row_testresults item = ResultsText s \<longrightarrow>
        report_id (fst (transformRow rt item)) = row_id item
        \<and> (s = [] \<longrightarrow>
              testResults (fst (transformRow rt item)) = None
              \<and> snd (transformRow rt item) = [])
        \<and> (s \<noteq> [] \<and> parseResults rt s = SyntaxError \<longrightarrow>
              testResults (fst (transformRow rt item)) = None
              \<and> snd (transformRow rt item) = [''Error parsing test results:''])
        \<and> (s \<noteq> [] \<and> parseResults rt s = NotOfType w \<longrightarrow>
              testResults (fst (transformRow rt item)) = Some (UncheckedResults w)
              \<and> snd (transformRow rt item) = []))"
proof (intro conjI impI)
  show "isLoading (fetchMetrics rt (Some uid) st (Reply (Some (MetricsText s)) None)) = False"
    by (simp add: fetchMetrics_def Let_def split: parsed.split)
  show "loaded_cache (fetchMetrics rt (Some uid) st (Reply (Some (MetricsText s)) None)) = st"
    if "s = []"
    using that by (simp add: fetchMetrics_def Let_def)
  show "load_console (fetchMetrics rt (Some uid) st (Reply (Some (MetricsText s)) None)) = []"
    if "s = []"
    using that by (simp add: fetchMetrics_def Let_def)
  show "loaded_cache (fetchMetrics rt (Some uid) st (Reply (Some (MetricsText s)) None)) = st"
    if "s \<noteq> [] \<and> parseMetrics rt s = SyntaxError"
    using that by (simp add: fetchMetrics_def Let_def)
  show "load_console (fetchMetrics rt (Some uid) st (Reply (Some (MetricsText s)) None))
          = [''Error parsing metrics JSON:'']"
    if "s \<noteq> [] \<and> parseMetrics rt s = SyntaxError"
    using that by (simp add: fetchMetrics_def Let_def)
  show "loaded_cache (fetchMetrics rt (Some uid) st (Reply (Some (MetricsText s)) None))
          = st\<lparr>notDocument := Some v\<rparr>"
    if "s \<noteq> [] \<and> parseMetrics rt s = NotOfType v"
    using that by (simp add: fetchMetrics_def Let_def)
  show "load_console (fetchMetrics rt (Some uid) st (Reply (Some (MetricsText s)) None)) = []"
    if "s \<noteq> [] \<and> parseMetrics rt s = NotOfType v"
    using that by (simp add: fetchMetrics_def Let_def)
next
  show "isLoading (fetchLabReports rt (Some uid) reports (Reply (Some rows) None)) = False"
    by (simp add: fetchLabReports_def Let_def)
  show "map report_id (loaded_cache (fetchLabReports rt (Some uid) reports (Reply (Some rows) None)))
          = map row_id rows"
    by (simp add: fetchLabReports_def transformRow_def Let_def)
  show "loaded_cache (fetchLabReports rt (Some uid) reports (Reply (Some rows) None))
          = map (\<lambda>row. fst (transformRow rt row)) rows"
    by (simp add: fetchLabReports_def Let_def)
  show "load_console (fetchLabReports rt (Some uid) reports (Reply (Some rows) None))
          = concat (map (\<lambda>row. snd (transformRow rt row)) rows)"
    by (simp add: fetchLabReports_def Let_def)
next
  assume a: "row_testresults item = ResultsText s"
  show "report_id (fst (transformRow rt item)) = row_id item"
    by (simp add: transformRow_def Let_def)
  show "testResults (fst (transformRow rt item)) = None" if "s = []"
    using a that by (simp add: transformRow_def Let_def)
  show "snd (transformRow rt item) = []" if "s = []"
    using a that by (simp add: transformRow_def Let_def)
  show "testResults (fst (transformRow rt item)) = None"
    if "s \<noteq> [] \<and> parseResults rt s = SyntaxError"
    using a that by (simp add: transformRow_def Let_def)
  show "snd (transformRow rt item) = [''Error parsing test results:'']"
    if "s \<noteq> [] \<and> parseResults rt s = SyntaxError"
    using a that by (simp add: transformRow_def Let_def)
  show "testResults (fst (transformRow rt item)) = Some (UncheckedResults w)"
    if "s \<noteq> [] \<and> parseResults rt s = NotOfType w"
    using a that by (simp add: transformRow_def Let_def)
  show "snd (transformRow rt item) = []"
    if "s \<noteq> [] \<and> parseResults rt s = NotOfType w"
    using a that by (simp add: transformRow_def Let_def)
qed

theorem decode_failure_absorbed_witness:
  "parseMetrics exampleRuntime ''{oops'' = SyntaxError
   \<and> loaded_cache (fetchMetrics exampleRuntime (Some ''u1'') initialMetricsHook
         (Reply (Some (MetricsText ''{oops'')) None)) = initialMetricsHook
   \<and> load_console (fetchMetrics exampleRuntime (Some ''u1'') initialMetricsHook
         (Reply (Some (MetricsText ''{oops'')) None)) = [''Error parsing metrics JSON:'']
   \<and> parseResults exampleRuntime ''{oops'' = SyntaxError
   \<and> map report_id (loaded_cache (fetchLabReports exampleRuntime (Some ''u1'') []
         (Reply (Some [exampleRow (ResultsText ''{oops'')]) None))) = [''r1'']
   \<and> testResults (fst (transformRow exampleRuntime (exampleRow (ResultsText ''{oops'')))) = None
   \<and> snd (transformRow exampleRuntime (exampleRow (ResultsText ''{oops'')))
       = [''Error parsing test results:'']
   \<and> parseMetrics exampleRuntime ''null'' = NotOfType JNull
   \<and> loaded_cache (fetchMetrics exampleRuntime (Some ''u1'') initialMetricsHook
         (Reply (Some (MetricsText ''null'')) None))
       = initialMetricsHook\<lparr>notDocument := Some JNull\<rparr>
   \<and> load_console (fetchMetrics exampleRuntime (Some ''u1'') initialMetricsHook
         (Reply (Some (MetricsText ''null'')) None)) = []
   \<and> parseResults exampleRuntime ''null'' = NotOfType JNull
   \<and> testResults (fst (transformRow exampleRuntime (exampleRow (ResultsText ''null''))))
       = Some (UncheckedResults JNull)
   \<and> snd (transformRow exampleRuntime (exampleRow (ResultsText ''null''))) = []"
  using decode_failure_absorbed
    [of exampleRuntime "''u1''" initialMetricsHook "''{oops''" "JNull" "[]"
        "[exampleRow (ResultsText ''{oops'')]" "exampleRow (ResultsText ''{oops'')" "JNull"]
    decode_failure_absorbed
    [of exampleRuntime "''u1''" initialMetricsHook "''null''" "JNull" "[]"
        "[exampleRow (ResultsText ''null'')]" "exampleRow (ResultsText ''null'')" "JNull"]
  by (simp add: exampleRuntime_def exampleParse_def exampleRow_def)

subsection \<open>What is sent and what is loaded\<close>

text \<open>
  The codec of the metrics channel is \<open>JSON.stringify\<close> and \<open>JSON.parse\<close> of the runtime.
  What the hooks add to it: the loader makes the state's document the object that
  \<open>JSON.parse\<close> returns when it is one, and a successful \<open>addMetricReading\<close> has sent the text that
  \<open>JSON.stringify\<close> returns for the very document it leaves in the state, in an update of
  the row when there is one and in an insert with the user's id otherwise.
\<close>

lemma installEntry_document:
  assumes "\<forall>k a. metrics st k = Some a \<longrightarrow> a < nextAddr st"
  shows "document (installEntry e st) = (document st)(fst e \<mapsto> snd e)"
    and "\<forall>k a. metrics (installEntry e st) k = Some a \<longrightarrow> a < nextAddr (installEntry e st)"
proof -
  show "document (installEntry e st) = (document st)(fst e \<mapsto> snd e)"
  proof (rule ext)
    fix k
    show "document (installEntry e st) k = ((document st)(fst e \<mapsto> snd e)) k"
    proof (cases "metrics st k")
      case None
      then show ?thesis by (simp add: document_def installEntry_def)
    next
      case (Some a)
      with assms have "a \<noteq> nextAddr st" by fastforce
      with Some show ?thesis by (simp add: document_def installEntry_def)
    qed
  qed
  show "\<forall>k a. metrics (installEntry e st) k = Some a \<longrightarrow> a < nextAddr (installEntry e st)"
    using assms by (auto simp: installEntry_def less_Suc_eq)
qed

lemma fold_installEntry_document:
  "\<forall>k a. metrics st k = Some a \<longrightarrow> a < nextAddr st \<Longrightarrow>
   document (fold installEntry es st) = fold (\<lambda>e m. m(fst e \<mapsto> snd e)) es (document st)"
proof (induction es arbitrary: st)
  case Nil
  then show ?case by simp
next
  case (Cons e es)
  from installEntry_document [OF Cons.prems, of e] Cons.IH [of "installEntry e st"]
  show ?case by simp
qed

lemma document_installDocument:
  "document (installDocument es st) = fold (\<lambda>e m. m(fst e \<mapsto> snd e)) es Map.empty"
proof -
  have "document (st\<lparr>metrics := Map.empty\<rparr>) = Map.empty"
    by (rule ext) (simp add: document_def)
  then show ?thesis
    using fold_installEntry_document [of "st\<lparr>metrics := Map.empty\<rparr>" es]
    by (simp add: installDocument_def)
qed

lemma document_fun: "document st = (\<lambda>k. map_option (heap st) (metrics st k))"
  by (rule ext) (simp add: document_def)

lemma addMetricReading_sends_document_text:
  assumes "result (addMetricReading rt (Some uid) st k d x now c w) = Boolean True"
  shows "requests (addMetricReading rt (Some uid) st k d x now c w)
     = [SelectId ''health_metrics'' uid,
        (case existingId c of
           Some i \<Rightarrow> Update ''health_metrics'' i (MetricsRow None
             (stringifyMetrics rt (document (cache (addMetricReading rt (Some uid) st k d x now c w)))))
         | None \<Rightarrow> Insert ''health_metrics'' (MetricsRow (Some uid)
             (stringifyMetrics rt (document (cache (addMetricReading rt (Some uid) st k d x now c w))))))]"
  using assms
  by (auto simp: addMetricReading_def Let_def document_fun split: option.splits if_splits)

lemma fetchMetrics_installs_what_parses:
  assumes "parseMetrics rt s = OfType es" and "s \<noteq> []"
  shows "document (memory (loaded_cache
             (fetchMetrics rt (Some uid) st (Reply (Some (MetricsText s)) None))))
           = fold (\<lambda>e m. m(fst e \<mapsto> snd e)) es Map.empty"
    and "notDocument (loaded_cache
             (fetchMetrics rt (Some uid) st (Reply (Some (MetricsText s)) None))) = None"
  using assms by (simp_all add: fetchMetrics_def Let_def document_installDocument)

subsection \<open>Failure of a write\<close>

text \<open>
  The three update functions and \<open>addLabReport\<close> build a new value and store it only after
  the write: a call that does not return \<open>true\<close> leaves their state as it was.
\<close>

lemma upsert_failure_keeps_cache:
  "(result (updatePersonalInfo user p pu c w) \<noteq> Boolean True \<longrightarrow>
      cache (updatePersonalInfo user p pu c w) = p)
   \<and> (result (updateVitalsInfo user v vu c w) \<noteq> Boolean True \<longrightarrow>
      cache (updateVitalsInfo user v vu c w) = v)
   \<and> (result (updateLifestyleInfo user l lu c w) \<noteq> Boolean True \<longrightarrow>
      cache (updateLifestyleInfo user l lu c w) = l)
   \<and> (result (addLabReport rt user rs r lr) \<noteq> Boolean True \<longrightarrow>
      cache (addLabReport rt user rs r lr) = rs)"
  by (auto simp: updatePersonalInfo_def updateVitalsInfo_def updateLifestyleInfo_def
      addLabReport_def Let_def
      split: option.splits reply.splits list.splits resultsColumn.splits parsed.splits
        if_splits)

lemma showInt_now: "showInt 1700000000000 = ''1700000000000''"
  by code_simp

lemma arraySort_single: "arraySort c [x] = [x]"
  by (simp add: arraySort_def)

text \<open>
  Claim C1 says that a failed remote write leaves the cache exactly as it was, for all five
  upsert operations. \<open>addMetricReading\<close> appends the new reading to the array of the metric
  object that the state holds before it sends anything: when the existence check fails, the
  function returns \<open>false\<close> and the state's document has the reading.
\<close>

theorem addMetricReading_failure_changes_document:
  "result (addMetricReading rt (Some ''u1'') initialMetrics ''weight'' ''2024-01-02'' (Fin 70)
      1700000000000 serverError w) = Boolean False
   \<and> document initialMetrics ''weight''
       = Some \<lparr>md_name = Some ''Weight'', md_unit = Some ''kg'', normal_range = None,
               readings = Some []\<rparr>
   \<and> document (cache (addMetricReading rt (Some ''u1'') initialMetrics ''weight'' ''2024-01-02''
        (Fin 70) 1700000000000 serverError w)) ''weight''
       = Some \<lparr>md_name = Some ''Weight'', md_unit = Some ''kg'', normal_range = None,
               readings = Some [\<lparr>reading_id = ''weight1700000000000'',
                                 reading_date = ''2024-01-02'', reading_value = Fin 70\<rparr>]\<rparr>"
  by (simp add: addMetricReading_def getProperty_def initialMetrics_def serverError_def
      document_def readingsOf_def Let_def arraySort_single showInt_now)

subsection \<open>Metric keys\<close>

text \<open>
  A key for which the property read finds nothing is rejected: no request, and the state
  stays.
\<close>

lemma addMetricReading_unknown_key:
  assumes "getProperty rt (metrics st) k = None"
  shows "result (addMetricReading rt (Some uid) st k d x now c w) = Boolean False
         \<and> cache (addMetricReading rt (Some uid) st k d x now c w) = st
         \<and> requests (addMetricReading rt (Some uid) st k d x now c w) = []
         \<and> map title (toasts (addMetricReading rt (Some uid) st k d x now c w)) = [''Invalid metric'']"
  using assms by (simp add: addMetricReading_def Let_def)

lemma undeclared_keys_not_found:
  "getProperty exampleRuntime (metrics initialMetrics) ''nonexistent'' = None"
  "getProperty exampleRuntime (metrics initialMetrics) [] = None"
  by (simp_all add: getProperty_def initialMetrics_def exampleRuntime_def objectPrototype_def)

text \<open>
  Claim C7 says that every key that is not a declared metric key is rejected. The test is
  \<open>!updatedMetrics[metricKey]\<close>, and the read finds what \<open>Object.prototype\<close> has: with the
  key \<open>constructor\<close>, which the document does not have, the function writes the reading to
  the inherited object, sends the unchanged document, shows the toast \<open>Reading added\<close> and
  returns \<open>true\<close>.
\<close>

theorem addMetricReading_inherited_key:
  "metrics initialMetrics ''constructor'' = None
   \<and> result (addMetricReading exampleRuntime (Some ''u1'') initialMetrics ''constructor''
        ''2024-01-02'' (Fin 70) 1700000000000 noRow written) = Boolean True
   \<and> map title (toasts (addMetricReading exampleRuntime (Some ''u1'') initialMetrics
        ''constructor'' ''2024-01-02'' (Fin 70) 1700000000000 noRow written)) = [''Reading added'']
   \<and> document (cache (addMetricReading exampleRuntime (Some ''u1'') initialMetrics
        ''constructor'' ''2024-01-02'' (Fin 70) 1700000000000 noRow written))
       = document initialMetrics"
  by (simp add: addMetricReading_def getProperty_def initialMetrics_def exampleRuntime_def
      objectPrototype_def noRow_def written_def document_def readingsOf_def Let_def fun_eq_iff)

subsection \<open>Appending a reading\<close>




















subsection \<open>The derived field after an update\<close>

text \<open>
  After a successful update the stored \<open>bmi\<close> is computed from
  \<open>updatedInfo.height || vitals.height\<close> and \<open>updatedInfo.weight || vitals.weight\<close>; a \<open>bmi\<close>
  in the update is never stored. It is the \<open>bmi\<close> of the stored height and weight when the
  update's height and weight are absent or truthy.
\<close>

lemma updateVitalsInfo_bmi:
  "result (updateVitalsInfo user v u c w) = Boolean True \<longrightarrow>
     bmi (cache (updateVitalsInfo user v u c w))
       = calculateBMI (orElse (upd_height u) (height v)) (orElse (upd_weight u) (weight v))
     \<and> ((\<forall>h. upd_height u = Some h \<longrightarrow> truthy h) \<and> (\<forall>x. upd_weight u = Some x \<longrightarrow> truthy x) \<longrightarrow>
          bmi (cache (updateVitalsInfo user v u c w))
            = calculateBMI (height (cache (updateVitalsInfo user v u c w)))
                (weight (cache (updateVitalsInfo user v u c w))))"
  by (auto simp: updateVitalsInfo_def spreadVitals_def orElse_def Let_def
      split: option.splits)

text \<open>
  Claim C3 says that the stored \<open>bmi\<close> is that of the stored height and weight after every
  successful update, also one that supplies a zero. An update with the weight 0 stores the
  weight 0 but computes the \<open>bmi\<close> from the weight it had, 68: the state has \<open>bmi = 23.5\<close>,
  where the height 170 and the weight 0 give 0.
\<close>

theorem updateVitalsInfo_zero_weight:
  "result (updateVitalsInfo (Some ''u1'') initialVitals (onlyWeight (Fin 0)) noRow written)
     = Boolean True
   \<and> height (cache (updateVitalsInfo (Some ''u1'') initialVitals (onlyWeight (Fin 0)) noRow written))
       = Fin 170
   \<and> weight (cache (updateVitalsInfo (Some ''u1'') initialVitals (onlyWeight (Fin 0)) noRow written))
       = Fin 0
   \<and> bmi (cache (updateVitalsInfo (Some ''u1'') initialVitals (onlyWeight (Fin 0)) noRow written))
       = Fin (47 / 2)
   \<and> calculateBMI (Fin 170) (Fin 0) = Fin 0"
  by (simp add: updateVitalsInfo_def spreadVitals_def orElse_def truthy_def initialVitals_def
      onlyWeight_def noRow_def written_def Let_def calculateBMI_170_68 calculateBMI_170_0)

end
